theory Spec2Isabelle
  imports Main
begin

section \<open>Data model of pkg/sim/nas.go\<close>

text \<open>
  A squawk is Go's \<^verbatim>\<open>av.Squawk\<close>, an integer type. A \<^verbatim>\<open>time.Time\<close> is the number of
  nanoseconds since the zero value of \<^verbatim>\<open>time.Time\<close>, so that the zero value is \<open>0\<close>;
  a \<^verbatim>\<open>time.Duration\<close> is a number of nanoseconds. A pointer to a
  \<^verbatim>\<open>STARSFlightPlan\<close> is an address into a store of flight plans; \<open>None\<close> is the nil pointer.
\<close>

type_synonym squawk = int
type_synonym time = int
type_synonym addr = nat

text \<open>Message types sent from either ERAM or STARS (the \<^verbatim>\<open>iota\<close> block of integer constants).\<close>

definition Plan :: int where "Plan = 0"
definition Amendment :: int where "Amendment = 1"
definition Cancellation :: int where "Cancellation = 2"
definition RequestFlightPlan :: int where "RequestFlightPlan = 3"
definition DepartureDM :: int where "DepartureDM = 4"
definition BeaconTerminate :: int where "BeaconTerminate = 5"
definition InitiateTransfer :: int where "InitiateTransfer = 6"
definition AcceptRecallTransfer :: int where "AcceptRecallTransfer = 7"


text \<open>
  \<^verbatim>\<open>av.FlightRules\<close> is declared in package aviation, outside the files modelled here; the
  code only builds \<^verbatim>\<open>av.VFR\<close> and \<^verbatim>\<open>av.IFR\<close>. The enumeration below gives the type a
  zero value of its own; no theorem of this file depends on which constant is the zero value.
\<close>

datatype FlightRules = UNKNOWN | IFR | VFR | DVFR | SVFR

text \<open>The error values of the package, and the ways the modelled code can panic.\<close>

datatype error =
    ErrNoMoreAvailableSquawkCodes
  | ErrUnknownFacility
  | ErrNoMatchingFlight
  | ErrNoMatchingFix
  | ErrIllegalACID
  | ErrIllegalScratchpad
  | ErrIllegalACType
  | ErrInvalidAbbreviatedFP
  | ErrOther string

datatype panic = ZeroSquawk | NilDereference | IndexOutOfRange | SliceBoundsOutOfRange

text \<open>
  \<^verbatim>\<open>av.FlightPlan\<close>: the fields that the code of nas.go reads or writes (the struct is
  declared in package aviation).
\<close>

record FlightPlan =
  fp_Callsign :: string
  fp_Rules :: FlightRules
  fp_AircraftType :: string
  fp_AssignedSquawk :: squawk
  fp_DepartureAirport :: string
  fp_ArrivalAirport :: string
  fp_Route :: string
  fp_ECID :: string
  fp_Altitude :: int
  fp_Exit :: string

record CoordinationTime =
  ct_Time :: time
  ct_Type :: string

text \<open>
  \<^verbatim>\<open>STARSFlightPlan\<close> embeds \<^verbatim>\<open>av.FlightPlan\<close>; its own \<^verbatim>\<open>Altitude\<close> (a string) hides the
  embedded integer \<^verbatim>\<open>Altitude\<close>, so \<^verbatim>\<open>fp.Altitude\<close> on a \<^verbatim>\<open>STARSFlightPlan\<close> is
  \<open>sfp_Altitude\<close>.
\<close>

record STARSFlightPlan = FlightPlan +
  sfp_FlightPlanType :: int
  sfp_CoordinationTime :: CoordinationTime
  sfp_CoordinationFix :: string
  sfp_ContainedFacilities :: "string list"
  sfp_Altitude :: string
  sfp_SP1 :: string
  sfp_SP2 :: string
  sfp_InitialController :: string

record AircraftDataMessage =
  adm_DepartureLocation :: string
  adm_ArrivalLocation :: string
  adm_NumberOfAircraft :: int
  adm_AircraftType :: string
  adm_AircraftCategory :: string
  adm_Equipment :: string

text \<open>
  \<^verbatim>\<open>TrackInformation\<close>. The field \<^verbatim>\<open>RedirectedHandoff\<close> (a struct of package aviation
  that no function of nas.go reads or writes) is left out.
\<close>

record TrackInformation =
  ti_Identifier :: string
  ti_TrackOwner :: string
  ti_HandoffController :: string
  ti_FlightPlan :: "addr option"
  ti_PointOut :: string
  ti_PointOutHistory :: "string list"
  ti_SP1 :: string
  ti_SP2 :: string
  ti_AutoAssociateFP :: bool

text \<open>
  \<^verbatim>\<open>FlightPlanMessage\<close> embeds \<^verbatim>\<open>TrackInformation\<close>, so \<^verbatim>\<open>msg.Identifier\<close>,
  \<^verbatim>\<open>msg.TrackOwner\<close> and \<^verbatim>\<open>msg.HandoffController\<close> are the \<open>ti_\<close> fields of the message.
\<close>

record FlightPlanMessage = TrackInformation +
  fpm_SourceID :: string
  fpm_MessageType :: int
  fpm_FlightID :: string
  fpm_AircraftData :: AircraftDataMessage
  fpm_BCN :: squawk
  fpm_CoordinationFix :: string
  fpm_CoordinationTime :: CoordinationTime
  fpm_Altitude :: string
  fpm_Route :: string

text \<open>
  \<^verbatim>\<open>av.AdaptationFix\<close> (package aviation): the two fields read by nas.go's message
  handling. \<^verbatim>\<open>av.AdaptationFixes\<close> is a slice of them, and \<^verbatim>\<open>av.ERAMAdaptation\<close> holds the
  map \<^verbatim>\<open>CoordinationFixes\<close> from fix names to such slices. The map is kept as an
  association list: its order stands for the order in which one \<^verbatim>\<open>range\<close> over the Go map
  happens to visit the keys, and lookups go through \<open>map_of\<close>.
\<close>

record AdaptationFix =
  af_FromFacility :: string
  af_ToFacility :: string

type_synonym AdaptationFixes = "AdaptationFix list"

record ERAMAdaptation =
  ad_CoordinationFixes :: "(string \<times> AdaptationFixes) list"

text \<open>
  The functions and tables that nas.go uses from packages aviation and util, and the
  formatting of a time, none of which is among the files modelled. They are parameters of
  the model: every theorem below holds for all of them, or names what it assumes of them.
    \<^item> \<open>av_SquawkIsSPC\<close>: the boolean result of \<^verbatim>\<open>av.SquawkIsSPC\<close>;
    \<^item> \<open>av_ParseSquawk\<close>: \<^verbatim>\<open>av.ParseSquawk\<close>, \<open>None\<close> when it returns an error;
    \<^item> \<open>av_TypeWithoutSuffix\<close>: the method \<^verbatim>\<open>FlightPlan.TypeWithoutSuffix\<close>;
    \<^item> \<open>av_AircraftPerformance\<close>: whether a key is in \<^verbatim>\<open>av.DB.AircraftPerformance\<close>;
    \<^item> \<open>av_TRACON_ARTCC\<close>: \<^verbatim>\<open>av.DB.TRACONs[t].ARTCC\<close> (the empty string for an unknown key);
    \<^item> \<open>av_Fix\<close>: the method \<^verbatim>\<open>AdaptationFixes.Fix\<close>;
    \<^item> \<open>av_FixForRouteAndAltitude\<close>, \<open>av_AdaptationFixForAltitude\<close>: the methods of
      \<^verbatim>\<open>av.ERAMAdaptation\<close> of these names;
    \<^item> \<open>util_IsAllNumbers\<close>, \<open>util_IsAllLetters\<close>: the functions of package util;
    \<^item> \<open>time_Format1504Z\<close>: \<^verbatim>\<open>t.Format("1504Z")\<close>.
\<close>

record deps =
  av_SquawkIsSPC :: "squawk \<Rightarrow> bool"
  av_ParseSquawk :: "string \<Rightarrow> squawk option"
  av_TypeWithoutSuffix :: "FlightPlan \<Rightarrow> string"
  av_AircraftPerformance :: "string \<Rightarrow> bool"
  av_TRACON_ARTCC :: "string \<Rightarrow> string"
  av_Fix :: "AdaptationFixes \<Rightarrow> string \<Rightarrow> error + AdaptationFix"
  av_FixForRouteAndAltitude :: "ERAMAdaptation \<Rightarrow> string \<Rightarrow> string \<Rightarrow> string \<times> bool"
  av_AdaptationFixForAltitude :: "ERAMAdaptation \<Rightarrow> string \<Rightarrow> string \<Rightarrow> AdaptationFix \<times> bool"
  util_IsAllNumbers :: "string \<Rightarrow> bool"
  util_IsAllLetters :: "string \<Rightarrow> bool"
  time_Format1504Z :: "time \<Rightarrow> string"

subsection \<open>Zero values\<close>

definition zero_CoordinationTime :: CoordinationTime where
  "zero_CoordinationTime = \<lparr>ct_Time = 0, ct_Type = []\<rparr>"

definition zero_AircraftDataMessage :: AircraftDataMessage where
  "zero_AircraftDataMessage =
     \<lparr>adm_DepartureLocation = [], adm_ArrivalLocation = [], adm_NumberOfAircraft = 0,
      adm_AircraftType = [], adm_AircraftCategory = [], adm_Equipment = []\<rparr>"

definition zero_STARSFlightPlan :: STARSFlightPlan where
  "zero_STARSFlightPlan =
     \<lparr>fp_Callsign = [], fp_Rules = UNKNOWN, fp_AircraftType = [], fp_AssignedSquawk = 0,
      fp_DepartureAirport = [], fp_ArrivalAirport = [], fp_Route = [], fp_ECID = [],
      fp_Altitude = 0, fp_Exit = [],
      sfp_FlightPlanType = 0, sfp_CoordinationTime = zero_CoordinationTime,
      sfp_CoordinationFix = [], sfp_ContainedFacilities = [], sfp_Altitude = [],
      sfp_SP1 = [], sfp_SP2 = [], sfp_InitialController = []\<rparr>"

definition zero_TrackInformation :: TrackInformation where
  "zero_TrackInformation =
     \<lparr>ti_Identifier = [], ti_TrackOwner = [], ti_HandoffController = [], ti_FlightPlan = None,
      ti_PointOut = [], ti_PointOutHistory = [], ti_SP1 = [], ti_SP2 = [],
      ti_AutoAssociateFP = False\<rparr>"

definition zero_FlightPlanMessage :: FlightPlanMessage where
  "zero_FlightPlanMessage =
     \<lparr>ti_Identifier = [], ti_TrackOwner = [], ti_HandoffController = [], ti_FlightPlan = None,
      ti_PointOut = [], ti_PointOutHistory = [], ti_SP1 = [], ti_SP2 = [],
      ti_AutoAssociateFP = False,
      fpm_SourceID = [], fpm_MessageType = 0, fpm_FlightID = [],
      fpm_AircraftData = zero_AircraftDataMessage, fpm_BCN = 0, fpm_CoordinationFix = [],
      fpm_CoordinationTime = zero_CoordinationTime, fpm_Altitude = [], fpm_Route = []\<rparr>"

section \<open>Strings\<close>

text \<open>Go strings are byte sequences; \<open>string\<close> is a list of bytes, \<^verbatim>\<open>len\<close> is \<open>length\<close>.\<close>

definition strings_HasPrefix :: "string \<Rightarrow> string \<Rightarrow> bool" where
  "strings_HasPrefix s p = (take (length p) s = p)"

fun strings_Contains :: "string \<Rightarrow> string \<Rightarrow> bool" where
  "strings_Contains [] sub = (sub = [])"
| "strings_Contains (c # cs) sub = (strings_HasPrefix (c # cs) sub \<or> strings_Contains cs sub)"

definition strings_TrimPrefix :: "string \<Rightarrow> string \<Rightarrow> string" where
  "strings_TrimPrefix s p = (if strings_HasPrefix s p then drop (length p) s else s)"

section \<open>Flight plan / message conversion\<close>

text \<open>\<^verbatim>\<open>func (fp STARSFlightPlan) Message() FlightPlanMessage\<close>\<close>

definition Message :: "deps \<Rightarrow> STARSFlightPlan \<Rightarrow> FlightPlanMessage" where
  "Message E fp =
     zero_FlightPlanMessage
       \<lparr>fpm_BCN := fp_AssignedSquawk fp,
        fpm_Altitude := sfp_Altitude fp,
        fpm_Route := fp_Route fp,
        fpm_AircraftData :=
          \<lparr>adm_DepartureLocation = fp_DepartureAirport fp,
           adm_ArrivalLocation = fp_ArrivalAirport fp,
           adm_NumberOfAircraft = 1,
           adm_AircraftType = av_TypeWithoutSuffix E (FlightPlan.truncate fp),
           adm_AircraftCategory = fp_AircraftType fp,
           adm_Equipment =
             strings_TrimPrefix (fp_AircraftType fp)
               (av_TypeWithoutSuffix E (FlightPlan.truncate fp))\<rparr>,
        fpm_FlightID := fp_ECID fp @ fp_Callsign fp,
        fpm_CoordinationFix := sfp_CoordinationFix fp,
        fpm_CoordinationTime := sfp_CoordinationTime fp\<rparr>"

text \<open>
  \<^verbatim>\<open>func (s FlightPlanMessage) FlightPlan() *STARSFlightPlan\<close>: the plan that the method
  builds; the caller's pointer to it is an address of the store (see \<open>new_plan\<close> below).
\<close>

definition FlightPlan_of :: "FlightPlanMessage \<Rightarrow> STARSFlightPlan" where
  "FlightPlan_of s =
     (let rules = (if strings_Contains (fpm_Altitude s) ''VFR'' then VFR else IFR);
          flightPlan = zero_STARSFlightPlan
            \<lparr>fp_Rules := rules,
             fp_AircraftType := adm_AircraftType (fpm_AircraftData s),
             fp_AssignedSquawk := fpm_BCN s,
             fp_DepartureAirport := adm_DepartureLocation (fpm_AircraftData s),
             fp_ArrivalAirport := adm_ArrivalLocation (fpm_AircraftData s),
             fp_Route := fpm_Route s,
             sfp_CoordinationFix := fpm_CoordinationFix s,
             sfp_CoordinationTime := fpm_CoordinationTime s,
             sfp_Altitude := fpm_Altitude s\<rparr>
      in if length (fpm_FlightID s) > 3
         then flightPlan\<lparr>fp_ECID := take 3 (fpm_FlightID s),
                         fp_Callsign := drop 3 (fpm_FlightID s)\<rparr>
         else flightPlan)"

text \<open>
  \<^verbatim>\<open>func FlightPlanDepartureMessage(fp av.FlightPlan, sendingFacility string, simTime time.Time)\<close>,
  with \<^verbatim>\<open>strconv.Itoa\<close> and \<^verbatim>\<open>formatSourceID\<close>.
\<close>

fun nat_digits :: "nat \<Rightarrow> string" where
  "nat_digits n =
     (if n < 10 then [''0123456789'' ! n]
      else nat_digits (n div 10) @ [''0123456789'' ! (n mod 10)])"

definition strconv_Itoa :: "int \<Rightarrow> string" where
  "strconv_Itoa i = (if i < 0 then CHR ''-'' # nat_digits (nat (- i)) else nat_digits (nat i))"

definition formatSourceID :: "deps \<Rightarrow> string \<Rightarrow> time \<Rightarrow> string" where
  "formatSourceID E ident t = ident @ time_Format1504Z E t"

definition FlightPlanDepartureMessage :: "deps \<Rightarrow> FlightPlan \<Rightarrow> string \<Rightarrow> time \<Rightarrow> FlightPlanMessage" where
  "FlightPlanDepartureMessage E fp sendingFacility simTime =
     zero_FlightPlanMessage
       \<lparr>fpm_SourceID := formatSourceID E sendingFacility simTime,
        fpm_MessageType := Plan,
        fpm_FlightID := fp_ECID fp @ fp_Callsign fp,
        fpm_AircraftData :=
          \<lparr>adm_DepartureLocation = fp_DepartureAirport fp,
           adm_ArrivalLocation = fp_ArrivalAirport fp,
           adm_NumberOfAircraft = 1,
           adm_AircraftType = av_TypeWithoutSuffix E fp,
           adm_AircraftCategory = fp_AircraftType fp,
           adm_Equipment = strings_TrimPrefix (fp_AircraftType fp) (av_TypeWithoutSuffix E fp)\<rparr>,
        fpm_BCN := fp_AssignedSquawk fp,
        fpm_CoordinationFix := fp_Exit fp,
        fpm_Altitude := (if fp_Rules fp = VFR then ''VFR/'' else []) @ strconv_Itoa (fp_Altitude fp),
        fpm_Route := fp_Route fp\<rparr>"

section \<open>The store of flight plans\<close>

text \<open>
  The Go heap, as far as \<^verbatim>\<open>*STARSFlightPlan\<close> pointers go: a non-nil pointer always refers to
  a plan, so the cells are a total function; \<open>ps_next\<close> is the first address never handed out.
  \<open>new_plan\<close> is the allocation of a plan (\<^verbatim>\<open>&STARSFlightPlan{...}\<close>).
\<close>

record PlanStore =
  ps_cells :: "addr \<Rightarrow> STARSFlightPlan"
  ps_next :: addr

definition new_plan :: "STARSFlightPlan \<Rightarrow> PlanStore \<Rightarrow> addr \<times> PlanStore" where
  "new_plan fp h =
     (ps_next h, h\<lparr>ps_cells := (ps_cells h)(ps_next h := fp), ps_next := Suc (ps_next h)\<rparr>)"

section \<open>Squawk pools\<close>


definition getBeaconBankSquawks :: "int \<Rightarrow> squawk set" where
  "getBeaconBankSquawks bank =
     fold (\<lambda>i sq. insert i sq) [bank * 64 + 1..bank * 64 + 63] {}"

text \<open>
  \<^verbatim>\<open>CreateSquawk\<close> (the same body for \<^verbatim>\<open>ERAMComputer\<close> and \<^verbatim>\<open>STARSComputer\<close>):
  \<^verbatim>\<open>for sq := range m { delete(m, sq); return sq, nil }; return 0, ErrNoMoreAvailableSquawkCodes\<close>.
  Which key the \<^verbatim>\<open>range\<close> yields first is not determined, so the function is a relation
  between the pool before, the result, and the pool after.
\<close>

inductive CreateSquawk :: "squawk set \<Rightarrow> error + squawk \<Rightarrow> squawk set \<Rightarrow> bool" where
  picked: "sq \<in> pool \<Longrightarrow> CreateSquawk pool (Inr sq) (pool - {sq})"
| exhausted: "pool = {} \<Longrightarrow> CreateSquawk pool (Inl ErrNoMoreAvailableSquawkCodes) pool"

code_pred CreateSquawk .



section \<open>The STARS computer\<close>

text \<open>
  \<^verbatim>\<open>STARSComputer\<close>. Left out are \<^verbatim>\<open>ERAMInbox\<close> and \<^verbatim>\<open>STARSInbox\<close> (pointers to other
  computers' queues, used only by the sending functions) and \<^verbatim>\<open>UnsupportedTracks\<close>.
  \<open>sc_AvailableSquawks\<close> holds the keys of the map \<^verbatim>\<open>AvailableSquawks\<close>; the Go map is one
  object shared by all STARS computers of an ERAM computer, so the statements about a pool
  below are about that object, whichever computer reaches it. Each
  value of the map \<^verbatim>\<open>TrackInformation\<close> is a pointer to an object that only this map refers
  to, so the map holds the objects themselves; an absent key is the nil pointer that the Go
  lookup returns.
\<close>

record STARSComputer =
  sc_Identifier :: string
  sc_ContainedPlans :: "squawk \<rightharpoonup> addr"
  sc_ReceivedMessages :: "FlightPlanMessage list"
  sc_TrackInformation :: "string \<rightharpoonup> TrackInformation"
  sc_AvailableSquawks :: "squawk set"

definition STARSComputer_CreateSquawk :: "STARSComputer \<Rightarrow> error + squawk \<Rightarrow> STARSComputer \<Rightarrow> bool" where
  "STARSComputer_CreateSquawk stars r stars' \<longleftrightarrow>
     CreateSquawk (sc_AvailableSquawks stars) r (sc_AvailableSquawks stars') \<and>
     stars' = stars\<lparr>sc_AvailableSquawks := sc_AvailableSquawks stars'\<rparr>"


text \<open>Events posted to the \<^verbatim>\<open>EventStream\<close>: \<^verbatim>\<open>e.Post\<close> appends to the list.\<close>

datatype EventType = TransferAcceptedEvent | TransferRejectedEvent

record Event =
  ev_Type :: EventType
  ev_Callsign :: string
  ev_ToController :: string

text \<open>
  \<^verbatim>\<open>clear(s)\<close> on a slice sets every element up to the length of the slice to the zero
  value of the element type; the length stays.
\<close>

definition clear_slice :: "FlightPlanMessage list \<Rightarrow> FlightPlanMessage list" where
  "clear_slice s = replicate (length s) zero_FlightPlanMessage"

text \<open>
  \<^verbatim>\<open>func (comp *STARSComputer) GetFlightPlan(identifier string)\<close>. The callsign search
  ranges over the map; \<open>order\<close> lists the keys in the order this range visits them.
\<close>

definition GetFlightPlan ::
  "deps \<Rightarrow> squawk list \<Rightarrow> PlanStore \<Rightarrow> STARSComputer \<Rightarrow> string \<Rightarrow> error + addr" where
  "GetFlightPlan E order h stars identifier =
     (case av_ParseSquawk E identifier of
        Some squawk \<Rightarrow>
          (case sc_ContainedPlans stars squawk of
             Some fp \<Rightarrow> Inr fp
           | None \<Rightarrow> Inl ErrNoMatchingFlight)
      | None \<Rightarrow>
          (case find (\<lambda>plan. fp_Callsign (ps_cells h plan) = identifier)
                  (List.map_filter (sc_ContainedPlans stars) order) of
             Some plan \<Rightarrow> Inr plan
           | None \<Rightarrow> Inl ErrNoMatchingFlight))"

text \<open>
  The body of the loop of \<^verbatim>\<open>SortReceivedMessages\<close>: one message, on the store, the
  computer and the event stream.
\<close>

definition STARS_sort_message ::
  "FlightPlanMessage \<Rightarrow> PlanStore \<times> STARSComputer \<times> Event list \<Rightarrow>
     PlanStore \<times> STARSComputer \<times> Event list" where
  "STARS_sort_message msg w =
     (case w of (h, stars, e) \<Rightarrow>
      if fpm_MessageType msg = Plan then
        (if fpm_BCN msg \<noteq> 0 then
           (case new_plan (FlightPlan_of msg) h of (fp, h') \<Rightarrow>
              (h', stars\<lparr>sc_ContainedPlans := (sc_ContainedPlans stars)(fpm_BCN msg \<mapsto> fp)\<rparr>, e))
         else (h, stars, e))
      else if fpm_MessageType msg = Amendment then
        (case new_plan (FlightPlan_of msg) h of (fp, h') \<Rightarrow>
           (h', stars\<lparr>sc_ContainedPlans := (sc_ContainedPlans stars)(fpm_BCN msg \<mapsto> fp)\<rparr>, e))
      else if fpm_MessageType msg = Cancellation then
        (h, stars\<lparr>sc_ContainedPlans := (sc_ContainedPlans stars)(fpm_BCN msg := None)\<rparr>, e)
      else if fpm_MessageType msg = InitiateTransfer then
        (case sc_ContainedPlans stars (fpm_BCN msg) of
           Some fp \<Rightarrow>
             (h,
              stars\<lparr>sc_TrackInformation := (sc_TrackInformation stars)(ti_Identifier msg \<mapsto>
                       zero_TrackInformation
                         \<lparr>ti_TrackOwner := ti_TrackOwner msg,
                          ti_HandoffController := ti_HandoffController msg,
                          ti_FlightPlan := Some fp\<rparr>),
                   sc_ContainedPlans := (sc_ContainedPlans stars)(fpm_BCN msg := None)\<rparr>,
              e @ [\<lparr>ev_Type = TransferAcceptedEvent, ev_Callsign = ti_Identifier msg,
                     ev_ToController = ti_TrackOwner msg\<rparr>])
         | None \<Rightarrow>
             (case sc_TrackInformation stars (ti_Identifier msg) of
                Some trk \<Rightarrow>
                  (h,
                   stars\<lparr>sc_TrackInformation := (sc_TrackInformation stars)(ti_Identifier msg \<mapsto>
                            zero_TrackInformation
                              \<lparr>ti_TrackOwner := ti_TrackOwner msg,
                               ti_HandoffController := ti_HandoffController msg,
                               ti_FlightPlan := ti_FlightPlan trk\<rparr>),
                        sc_ContainedPlans := (sc_ContainedPlans stars)(fpm_BCN msg := None)\<rparr>,
                   e @ [\<lparr>ev_Type = TransferAcceptedEvent, ev_Callsign = ti_Identifier msg,
                          ev_ToController = ti_TrackOwner msg\<rparr>])
              | None \<Rightarrow>
                  (h, stars,
                   e @ [\<lparr>ev_Type = TransferRejectedEvent, ev_Callsign = ti_Identifier msg,
                          ev_ToController = ti_TrackOwner msg\<rparr>])))
      else if fpm_MessageType msg = AcceptRecallTransfer then
        (case sc_TrackInformation stars (ti_Identifier msg) of
           None \<Rightarrow> (h, stars, e)
         | Some info \<Rightarrow>
             if ti_TrackOwner msg \<noteq> ti_TrackOwner info then
               (h,
                stars\<lparr>sc_TrackInformation := (sc_TrackInformation stars)(ti_Identifier msg \<mapsto>
                         info\<lparr>ti_TrackOwner := ti_TrackOwner msg, ti_HandoffController := []\<rparr>)\<rparr>,
                e)
             else
               (h,
                stars\<lparr>sc_TrackInformation := (sc_TrackInformation stars)(ti_Identifier msg := None)\<rparr>,
                e))
      else (h, stars, e))"

text \<open>
  \<^verbatim>\<open>func (comp *STARSComputer) SortReceivedMessages(e *EventStream)\<close>: the loop over the
  queue as it is when the loop starts, then \<^verbatim>\<open>clear(comp.ReceivedMessages)\<close>.
\<close>

definition SortReceivedMessages ::
  "PlanStore \<times> STARSComputer \<times> Event list \<Rightarrow> PlanStore \<times> STARSComputer \<times> Event list" where
  "SortReceivedMessages w =
     (case fold STARS_sort_message (sc_ReceivedMessages (fst (snd w))) w of
        (h', stars', e') \<Rightarrow>
          (h', stars'\<lparr>sc_ReceivedMessages := clear_slice (sc_ReceivedMessages stars')\<rparr>, e'))"

section \<open>The ERAM computer\<close>

text \<open>
  \<^verbatim>\<open>ERAMComputer\<close>. \<^verbatim>\<open>ReceivedMessages\<close> is the slice behind the pointer; \<^verbatim>\<open>ERAMInboxes\<close>
  maps a facility to the contents of the queue its pointer refers to; \<^verbatim>\<open>STARSComputers\<close>
  maps a facility to the computer its pointer refers to. The values of \<^verbatim>\<open>FlightPlans\<close> and
  the \<^verbatim>\<open>FlightPlan\<close> fields of the track information are pointers into the store, so one
  plan can be reached from both.
\<close>

record ERAMComputer =
  ec_STARSComputers :: "string \<rightharpoonup> STARSComputer"
  ec_ERAMInboxes :: "string \<rightharpoonup> FlightPlanMessage list"
  ec_ReceivedMessages :: "FlightPlanMessage list"
  ec_FlightPlans :: "squawk \<rightharpoonup> addr"
  ec_TrackInformation :: "string \<rightharpoonup> TrackInformation"
  ec_AvailableSquawks :: "squawk set"
  ec_Identifier :: string
  ec_Adaptation :: ERAMAdaptation

text \<open>
  The outcome of code that can panic: \<open>Done\<close> with the state it leaves, or \<open>Panicked\<close> with
  the state as it is when the panic starts.
\<close>

datatype 'a result = Done 'a | Panicked panic 'a

fun state_of :: "'a result \<Rightarrow> 'a" where
  "state_of (Done w) = w"
| "state_of (Panicked p w) = w"

definition ERAMComputer_CreateSquawk :: "ERAMComputer \<Rightarrow> error + squawk \<Rightarrow> ERAMComputer \<Rightarrow> bool" where
  "ERAMComputer_CreateSquawk eram r eram' \<longleftrightarrow>
     CreateSquawk (ec_AvailableSquawks eram) r (ec_AvailableSquawks eram') \<and>
     eram' = eram\<lparr>ec_AvailableSquawks := ec_AvailableSquawks eram'\<rparr>"


text \<open>\<^verbatim>\<open>ToSTARSFacility\<close> and \<^verbatim>\<open>SendMessageToERAM\<close>: the error returned, and the computer.\<close>

definition ToSTARSFacility ::
  "string \<Rightarrow> FlightPlanMessage \<Rightarrow> ERAMComputer \<Rightarrow> error option \<times> ERAMComputer" where
  "ToSTARSFacility facility msg eram =
     (case ec_STARSComputers eram facility of
        None \<Rightarrow> (Some ErrUnknownFacility, eram)
      | Some stars \<Rightarrow>
          (None,
           eram\<lparr>ec_STARSComputers := (ec_STARSComputers eram)(facility \<mapsto>
                   stars\<lparr>sc_ReceivedMessages := sc_ReceivedMessages stars @ [msg]\<rparr>)\<rparr>))"

definition SendMessageToERAM ::
  "string \<Rightarrow> FlightPlanMessage \<Rightarrow> ERAMComputer \<Rightarrow> error option \<times> ERAMComputer" where
  "SendMessageToERAM facility msg eram =
     (case ec_ERAMInboxes eram facility of
        None \<Rightarrow> (Some ErrUnknownFacility, eram)
      | Some inbox \<Rightarrow>
          (None, eram\<lparr>ec_ERAMInboxes := (ec_ERAMInboxes eram)(facility \<mapsto> inbox @ [msg])\<rparr>))"

subsection \<open>Timed transmission of flight plans\<close>






subsection \<open>Sorting the received messages\<close>

text \<open>
  The inner loop of the \<^verbatim>\<open>InitiateTransfer\<close> case of \<^verbatim>\<open>SortMessages\<close>, over the entries of
  \<^verbatim>\<open>comp.Adaptation.CoordinationFixes\<close>. The message is the loop variable of the outer loop, a
  copy that the forwarding branch updates (\<^verbatim>\<open>msg.SourceID = ...\<close>). Reading
  \<^verbatim>\<open>comp.TrackInformation[msg.Identifier].FlightPlan.Altitude\<close> panics when the track
  information or its plan is nil. The errors of the two sending functions are dropped.
\<close>

fun InitiateTransfer_fixes ::
  "deps \<Rightarrow> time \<Rightarrow> (string \<times> AdaptationFixes) list \<Rightarrow> FlightPlanMessage \<Rightarrow>
     PlanStore \<times> ERAMComputer \<Rightarrow> (PlanStore \<times> ERAMComputer) result" where
  "InitiateTransfer_fixes E simTime [] msg w = Done w"
| "InitiateTransfer_fixes E simTime ((name, fixes) # rest) msg w =
     (case ec_TrackInformation (snd w) (ti_Identifier msg) of
        None \<Rightarrow> Panicked NilDereference w
      | Some info \<Rightarrow>
          (case ti_FlightPlan info of
             None \<Rightarrow> Panicked NilDereference w
           | Some fp \<Rightarrow>
               (case av_Fix E fixes (sfp_Altitude (ps_cells (fst w) fp)) of
                  Inl err \<Rightarrow> InitiateTransfer_fixes E simTime rest msg w
                | Inr fix \<Rightarrow>
                    if name = fpm_CoordinationFix msg \<and> af_ToFacility fix \<noteq> ec_Identifier (snd w)
                    then
                      (let msg' = msg\<lparr>fpm_SourceID :=
                                         formatSourceID E (ec_Identifier (snd w)) simTime\<rparr>;
                           to = af_ToFacility fix
                       in if length to > 0 \<and> hd to = CHR ''Z''
                          then InitiateTransfer_fixes E simTime rest msg'
                                 (fst w, snd (SendMessageToERAM to msg' (snd w)))
                          else InitiateTransfer_fixes E simTime rest msg'
                                 (fst w, snd (ToSTARSFacility to msg' (snd w))))
                    else if name = fpm_CoordinationFix msg \<and>
                            af_ToFacility fix = ec_Identifier (snd w)
                    then InitiateTransfer_fixes E simTime rest msg
                           (fst w,
                            (snd w)\<lparr>ec_TrackInformation :=
                               (ec_TrackInformation (snd w))(ti_Identifier msg \<mapsto>
                                  zero_TrackInformation
                                    \<lparr>ti_TrackOwner := ti_TrackOwner msg,
                                     ti_HandoffController := ti_HandoffController msg,
                                     ti_FlightPlan := ec_FlightPlans (snd w) (fpm_BCN msg)\<rparr>)\<rparr>)
                    else InitiateTransfer_fixes E simTime rest msg w)))"

text \<open>
  The body of the loop of \<^verbatim>\<open>SortMessages\<close>: one message, on the store and the computer.
  \<^verbatim>\<open>panic("zero squawk")\<close>, a nil dereference and a slice expression out of range end the
  run with \<open>Panicked\<close>; \<^verbatim>\<open>lg.Warnf\<close> only logs.
\<close>

definition ERAM_sort_message ::
  "deps \<Rightarrow> time \<Rightarrow> FlightPlanMessage \<Rightarrow> PlanStore \<times> ERAMComputer \<Rightarrow>
     (PlanStore \<times> ERAMComputer) result" where
  "ERAM_sort_message E simTime msg w =
     (case w of (h, eram) \<Rightarrow>
      if fpm_MessageType msg = Plan then
        (case new_plan (FlightPlan_of msg) h of (fp, h1) \<Rightarrow>
           if fp_AssignedSquawk (ps_cells h1 fp) = 0 then Panicked ZeroSquawk (h1, eram)
           else
             (let eram1 = eram\<lparr>ec_FlightPlans := (ec_FlightPlans eram)(fpm_BCN msg \<mapsto> fp)\<rparr>;
                  found = av_FixForRouteAndAltitude E (ec_Adaptation eram1)
                            (fp_Route (ps_cells h1 fp)) (sfp_Altitude (ps_cells h1 fp));
                  h2 = (if sfp_CoordinationFix (ps_cells h1 fp) = []
                        then h1\<lparr>ps_cells := (ps_cells h1)(fp :=
                                  (ps_cells h1 fp)\<lparr>sfp_CoordinationFix := fst found\<rparr>)\<rparr>
                        else h1)
              in if sfp_CoordinationFix (ps_cells h1 fp) = [] \<and> \<not> snd found then Done (h2, eram1)
                 else
                   (case av_AdaptationFixForAltitude E (ec_Adaptation eram1)
                           (sfp_CoordinationFix (ps_cells h2 fp)) (sfp_Altitude (ps_cells h2 fp)) of
                      (af, ok) \<Rightarrow>
                        if ok \<and> af_ToFacility af \<noteq> ec_Identifier eram1
                        then Done (h2, snd (ToSTARSFacility (af_ToFacility af) msg eram1))
                        else Done (h2, eram1))))
      else if fpm_MessageType msg = RequestFlightPlan then
        (if length (fpm_SourceID msg) < 3 then Panicked SliceBoundsOutOfRange (h, eram)
         else
           (let facility = take 3 (fpm_SourceID msg);
                eram1 = (case ec_FlightPlans eram (fpm_BCN msg) of
                           Some plan \<Rightarrow>
                             snd (ToSTARSFacility facility
                                    (FlightPlanDepartureMessage E
                                       (FlightPlan.truncate (ps_cells h plan))
                                       (ec_Identifier eram) simTime)
                                    eram)
                         | None \<Rightarrow> eram)
            in if ec_ReceivedMessages eram1 = [] then Panicked SliceBoundsOutOfRange (h, eram1)
               else Done (h, eram1\<lparr>ec_ReceivedMessages := drop 1 (ec_ReceivedMessages eram1)\<rparr>)))
      else if fpm_MessageType msg = DepartureDM then Done (h, eram)
      else if fpm_MessageType msg = BeaconTerminate then Done (h, eram)
      else if fpm_MessageType msg = InitiateTransfer then
        (let info0 = (case ec_TrackInformation eram (ti_Identifier msg) of
                        None \<Rightarrow> zero_TrackInformation
                                  \<lparr>ti_FlightPlan := ec_FlightPlans eram (fpm_BCN msg)\<rparr>
                      | Some info \<Rightarrow> info);
             eram1 = eram
               \<lparr>ec_TrackInformation := (ec_TrackInformation eram)(ti_Identifier msg \<mapsto>
                    info0\<lparr>ti_TrackOwner := ti_TrackOwner msg,
                          ti_HandoffController := ti_HandoffController msg\<rparr>),
                ec_AvailableSquawks := insert (fpm_BCN msg) (ec_AvailableSquawks eram)\<rparr>
         in InitiateTransfer_fixes E simTime (ad_CoordinationFixes (ec_Adaptation eram1)) msg
              (h, eram1))
      else if fpm_MessageType msg = AcceptRecallTransfer then
        (case map_of (ad_CoordinationFixes (ec_Adaptation eram)) (fpm_CoordinationFix msg) of
           None \<Rightarrow> Done (h, eram)
         | Some adaptationFixes \<Rightarrow>
             (case ec_TrackInformation eram (ti_Identifier msg) of
                None \<Rightarrow> Panicked NilDereference (h, eram)
              | Some info \<Rightarrow>
                  (let eram1 = eram
                         \<lparr>ec_AvailableSquawks :=
                            (if ti_TrackOwner msg = ti_TrackOwner info
                             then insert (fpm_BCN msg) (ec_AvailableSquawks eram)
                             else ec_AvailableSquawks eram),
                          ec_TrackInformation := (ec_TrackInformation eram)(ti_Identifier msg \<mapsto>
                             info\<lparr>ti_TrackOwner := ti_TrackOwner msg\<rparr>)\<rparr>
                   in case ti_FlightPlan info of
                        None \<Rightarrow> Panicked NilDereference (h, eram1)
                      | Some fp \<Rightarrow>
                          (case av_Fix E adaptationFixes (sfp_Altitude (ps_cells h fp)) of
                             Inl err \<Rightarrow> Done (h, eram1)
                           | Inr adaptationFix \<Rightarrow>
                               if af_FromFacility adaptationFix \<noteq> ec_Identifier eram1
                               then Done (h, snd (SendMessageToERAM
                                                    (af_FromFacility adaptationFix) msg eram1))
                               else Done (h, eram1)))))
      else Done (h, eram))"

text \<open>
  \<^verbatim>\<open>func (comp *ERAMComputer) SortMessages(simTime time.Time, lg *log.Logger)\<close>: the
  \<^verbatim>\<open>range\<close> runs over the queue as it is when the loop starts (the \<^verbatim>\<open>RequestFlightPlan\<close>
  case re-slices the queue, which does not change what the loop visits), then
  \<^verbatim>\<open>clear(*comp.ReceivedMessages)\<close> is applied to the queue as it is then.
\<close>

fun SortMessages_loop ::
  "deps \<Rightarrow> time \<Rightarrow> FlightPlanMessage list \<Rightarrow> PlanStore \<times> ERAMComputer \<Rightarrow>
     (PlanStore \<times> ERAMComputer) result" where
  "SortMessages_loop E simTime [] w = Done w"
| "SortMessages_loop E simTime (msg # msgs) w =
     (case ERAM_sort_message E simTime msg w of
        Done w' \<Rightarrow> SortMessages_loop E simTime msgs w'
      | Panicked p w' \<Rightarrow> Panicked p w')"

definition SortMessages ::
  "deps \<Rightarrow> time \<Rightarrow> PlanStore \<times> ERAMComputer \<Rightarrow> (PlanStore \<times> ERAMComputer) result" where
  "SortMessages E simTime w =
     (case SortMessages_loop E simTime (ec_ReceivedMessages (snd w)) w of
        Done (h', eram') \<Rightarrow>
          Done (h', eram'\<lparr>ec_ReceivedMessages := clear_slice (ec_ReceivedMessages eram')\<rparr>)
      | Panicked p w' \<Rightarrow> Panicked p w')"

subsection \<open>Notions for stating the timed transmission\<close>





section \<open>The abbreviated flight plan parser\<close>

record AbbreviatedFPFields =
  ab_ACID :: string
  ab_BCN :: squawk
  ab_ControllingPosition :: string
  ab_TypeOfFlight :: string
  ab_SC1 :: string
  ab_SC2 :: string
  ab_AircraftType :: string
  ab_RequestedALT :: string
  ab_Rules :: FlightRules
  ab_DepartureAirport :: string
  ab_Error :: "error option"

definition zero_AbbreviatedFPFields :: AbbreviatedFPFields where
  "zero_AbbreviatedFPFields =
     \<lparr>ab_ACID = [], ab_BCN = 0, ab_ControllingPosition = [], ab_TypeOfFlight = [],
      ab_SC1 = [], ab_SC2 = [], ab_AircraftType = [], ab_RequestedALT = [],
      ab_Rules = UNKNOWN, ab_DepartureAirport = [], ab_Error = None\<rparr>"

text \<open>
  \<^verbatim>\<open>STARSFacilityAdaptation\<close> (declared elsewhere in package sim): the parser reads
  \<^verbatim>\<open>AllowLongScratchpad[0]\<close> and \<^verbatim>\<open>AllowLongScratchpad[1]\<close>.
\<close>

record STARSFacilityAdaptation =
  fa_AllowLongScratchpad :: "bool \<times> bool"

text \<open>
  \<^verbatim>\<open>unicode.IsLetter(rune(b))\<close> for a byte \<open>b\<close>: the letters among the code points up to 255.
\<close>

definition unicode_IsLetter :: "char \<Rightarrow> bool" where
  "unicode_IsLetter c =
     (let n = (of_char c :: nat)
      in (65 \<le> n \<and> n \<le> 90) \<or> (97 \<le> n \<and> n \<le> 122) \<or> n = 170 \<or> n = 181 \<or> n = 186 \<or>
         (192 \<le> n \<and> n \<le> 214) \<or> (216 \<le> n \<and> n \<le> 246) \<or> (248 \<le> n \<and> n \<le> 255))"

text \<open>\<^verbatim>\<open>strings.Split(s, "/")\<close>: the pieces of \<open>s\<close> between the separators, never an empty list.\<close>

fun strings_Split :: "string \<Rightarrow> char \<Rightarrow> string list" where
  "strings_Split [] sep = [[]]"
| "strings_Split (c # cs) sep =
     (if c = sep then [] # strings_Split cs sep
      else (case strings_Split cs sep of
              [] \<Rightarrow> [[c]]
            | piece # pieces \<Rightarrow> (c # piece) # pieces))"

text \<open>\<^verbatim>\<open>const STARSTriangleCharacter = string(rune(0x80))\<close>: the UTF-8 bytes C2 80.\<close>

definition STARSTriangleCharacter :: string where
  "STARSTriangleCharacter = [CHR 0xC2, CHR 0x80]"

definition badScratchpads :: "string list" where
  "badScratchpads = [''NAT'', ''CST'', ''AMB'', ''RDR'', ''ADB'', ''XXX'']"

text \<open>
  What one pass through the body of the parser's loop does: \<open>Next\<close> goes on with the next
  field (a \<^verbatim>\<open>continue\<close>, or the end of the body), \<open>Stop\<close> is \<^verbatim>\<open>return output\<close>, \<open>Crash\<close> a
  run-time panic.
\<close>

datatype flow = Next AbbreviatedFPFields | Stop AbbreviatedFPFields | Crash panic

text \<open>The last two tests of the loop body: the requested altitude and the flight rules.\<close>

definition parse_altitude_rules :: "deps \<Rightarrow> string \<Rightarrow> AbbreviatedFPFields \<Rightarrow> flow" where
  "parse_altitude_rules E field output =
     (if length field = 3 \<and> util_IsAllNumbers E field
      then Next (output\<lparr>ab_RequestedALT := field\<rparr>)
      else if length field = 2 then
        (if field ! 0 \<noteq> CHR ''.'' then Stop (output\<lparr>ab_Error := Some ErrInvalidAbbreviatedFP\<rparr>)
         else if field ! 1 = CHR ''V'' then Next (output\<lparr>ab_Rules := VFR\<rparr>)
         else if field ! 1 = CHR ''P'' then Next (output\<lparr>ab_Rules := VFR\<rparr>)
         else if field ! 1 = CHR ''E'' then Next (output\<lparr>ab_Rules := IFR\<rparr>)
         else Stop (output\<lparr>ab_Error := Some ErrInvalidAbbreviatedFP\<rparr>))
      else Next output)"

text \<open>The aircraft type test (\<^verbatim>\<open>strings.Split(field, "/")\<close>, for fields of four bytes or more).\<close>

definition parse_aircraft_type :: "deps \<Rightarrow> string \<Rightarrow> AbbreviatedFPFields \<Rightarrow> flow" where
  "parse_aircraft_type E field output =
     (let acFields = strings_Split field CHR ''/'' in
      if length field \<ge> 4 then
        (if length acFields = 1 then
           (if \<not> av_AircraftPerformance E field
            then Next (output\<lparr>ab_Error := Some ErrIllegalACType\<rparr>)
            else Next (output\<lparr>ab_AircraftType := field\<rparr>))
         else if length acFields = 2 then
           (if util_IsAllNumbers E (acFields ! 0) then
              (if acFields ! 1 = [] then Crash IndexOutOfRange
               else if \<not> unicode_IsLetter (hd (acFields ! 1))
               then Stop (output\<lparr>ab_Error := Some ErrInvalidAbbreviatedFP\<rparr>)
               else if \<not> av_AircraftPerformance E (acFields ! 1)
               then Next (output\<lparr>ab_Error := Some ErrIllegalACType\<rparr>)
               else Next (output\<lparr>ab_AircraftType := field\<rparr>))
            else
              (if length (acFields ! 1) > 1 \<or> \<not> util_IsAllLetters E (acFields ! 1)
               then Stop (output\<lparr>ab_Error := Some ErrInvalidAbbreviatedFP\<rparr>)
               else if \<not> av_AircraftPerformance E (acFields ! 0)
               then Next (output\<lparr>ab_Error := Some ErrIllegalACType\<rparr>)
               else Next (output\<lparr>ab_AircraftType := field\<rparr>)))
         else if length acFields = 3 then
           (if length (acFields ! 2) > 1 \<or> \<not> util_IsAllLetters E (acFields ! 2)
            then Stop (output\<lparr>ab_Error := Some ErrInvalidAbbreviatedFP\<rparr>)
            else if acFields ! 1 = [] then Crash IndexOutOfRange
            else if \<not> unicode_IsLetter (hd (acFields ! 1))
            then Stop (output\<lparr>ab_Error := Some ErrInvalidAbbreviatedFP\<rparr>)
            else if \<not> av_AircraftPerformance E (acFields ! 1)
            then Next (output\<lparr>ab_Error := Some ErrIllegalACType\<rparr>)
            else Next (output\<lparr>ab_AircraftType := field\<rparr>))
         else Next output)
      else parse_altitude_rules E field output)"

text \<open>
  The two scratchpad tests. \<^verbatim>\<open>field[len(field)-3:]\<close> panics when the field has fewer than
  three bytes. In the first condition \<^verbatim>\<open>&&\<close> binds tighter than \<^verbatim>\<open>||\<close>.
\<close>

definition parse_scratchpad2 ::
  "deps \<Rightarrow> STARSFacilityAdaptation \<Rightarrow> string \<Rightarrow> AbbreviatedFPFields \<Rightarrow> flow" where
  "parse_scratchpad2 E facilityAdaptation field output =
     (if strings_HasPrefix field ''+'' \<and> length field > 2 \<and>
         (length field \<le> 4 \<or> (length field \<le> 5 \<and> snd (fa_AllowLongScratchpad facilityAdaptation)))
      then
        (if field \<in> set badScratchpads then Stop (output\<lparr>ab_Error := Some ErrIllegalScratchpad\<rparr>)
         else parse_aircraft_type E field
                ((if util_IsAllNumbers E (drop (length field - 3) field)
                  then output\<lparr>ab_Error := Some ErrIllegalScratchpad\<rparr> else output)
                   \<lparr>ab_SC2 := field\<rparr>))
      else parse_aircraft_type E field output)"

definition parse_scratchpad1 ::
  "deps \<Rightarrow> STARSFacilityAdaptation \<Rightarrow> string \<Rightarrow> AbbreviatedFPFields \<Rightarrow> flow" where
  "parse_scratchpad1 E facilityAdaptation field output =
     (if (strings_HasPrefix field STARSTriangleCharacter \<and> length field > 3 \<and> length field \<le> 5) \<or>
         (length field \<le> 6 \<and> fst (fa_AllowLongScratchpad facilityAdaptation))
      then
        (if field \<in> set badScratchpads then Stop (output\<lparr>ab_Error := Some ErrIllegalScratchpad\<rparr>)
         else if length field < 3 then Crash SliceBoundsOutOfRange
         else parse_scratchpad2 E facilityAdaptation field
                ((if util_IsAllNumbers E (drop (length field - 3) field)
                  then output\<lparr>ab_Error := Some ErrIllegalScratchpad\<rparr> else output)
                   \<lparr>ab_SC1 := field\<rparr>))
      else parse_scratchpad2 E facilityAdaptation field output)"

text \<open>The whole loop body: beacon code, controlling position, type of flight, then the rest.\<close>

definition parse_field ::
  "deps \<Rightarrow> STARSFacilityAdaptation \<Rightarrow> string \<Rightarrow> AbbreviatedFPFields \<Rightarrow> flow" where
  "parse_field E facilityAdaptation field output =
     (case av_ParseSquawk E field of
        Some sq \<Rightarrow> Next (output\<lparr>ab_BCN := sq\<rparr>)
      | None \<Rightarrow>
          if length field = 2 then Next (output\<lparr>ab_ControllingPosition := field\<rparr>)
          else if length field \<le> 2 then
            (if length field = 1 then
               parse_scratchpad1 E facilityAdaptation field
                 (if field = ''A'' then output\<lparr>ab_TypeOfFlight := ''arrival''\<rparr>
                  else if field = ''P'' then output\<lparr>ab_TypeOfFlight := ''departure''\<rparr>
                  else if field = ''E'' then output\<lparr>ab_TypeOfFlight := ''overflight''\<rparr>
                  else output)
             else if length field = 2 then
               (if take 1 field \<in> set [''A'', ''P'', ''E'']
                then Next (output\<lparr>ab_TypeOfFlight := take 1 field,
                                  ab_DepartureAirport := drop 1 field\<rparr>)
                else parse_scratchpad1 E facilityAdaptation field output)
             else parse_scratchpad1 E facilityAdaptation field output)
          else parse_scratchpad1 E facilityAdaptation field output)"

fun parse_fields ::
  "deps \<Rightarrow> STARSFacilityAdaptation \<Rightarrow> string list \<Rightarrow> AbbreviatedFPFields \<Rightarrow>
     panic + AbbreviatedFPFields" where
  "parse_fields E facilityAdaptation [] output = Inr output"
| "parse_fields E facilityAdaptation (field # flds) output =
     (case parse_field E facilityAdaptation field output of
        Next output' \<Rightarrow> parse_fields E facilityAdaptation flds output'
      | Stop output' \<Rightarrow> Inr output'
      | Crash p \<Rightarrow> Inl p)"

text \<open>
  \<^verbatim>\<open>func ParseAbbreviatedFPFields(facilityAdaptation STARSFacilityAdaptation, fields []string)\<close>;
  \<^verbatim>\<open>fields[0]\<close> panics on an empty slice.
\<close>

definition ParseAbbreviatedFPFields ::
  "deps \<Rightarrow> STARSFacilityAdaptation \<Rightarrow> string list \<Rightarrow> panic + AbbreviatedFPFields" where
  "ParseAbbreviatedFPFields E facilityAdaptation flds =
     (case flds of
        [] \<Rightarrow> Inl IndexOutOfRange
      | acid # rest \<Rightarrow>
          if length acid \<ge> 2 \<and> length acid \<le> 7 \<and> unicode_IsLetter (hd acid)
          then parse_fields E facilityAdaptation rest (zero_AbbreviatedFPFields\<lparr>ab_ACID := acid\<rparr>)
          else Inr (zero_AbbreviatedFPFields\<lparr>ab_Error := Some ErrIllegalACID\<rparr>))"

section \<open>A concrete world\<close>

text \<open>
  One instance of the parameters and a small world, on which the theorems below are
  exercised: beacon codes are read as up to four octal digits, the special purpose codes
  are \<open>0o7500\<close>, \<open>0o7600\<close>, \<open>0o7700\<close> and \<open>0o7777\<close>, every slice of adaptation fixes
  resolves to its first entry, and the centre ZNY holds the terminal facility N90.
\<close>

definition octal_digit :: "char \<Rightarrow> int option" where
  "octal_digit c = map_of (zip ''01234567'' [0, 1, 2, 3, 4, 5, 6, 7]) c"

definition ex_ParseSquawk :: "string \<Rightarrow> squawk option" where
  "ex_ParseSquawk s =
     (if s \<noteq> [] \<and> length s \<le> 4 \<and> list_all (\<lambda>c. octal_digit c \<noteq> None) s
      then Some (foldl (\<lambda>v c. 8 * v + (case octal_digit c of Some d \<Rightarrow> d | None \<Rightarrow> 0)) 0 s)
      else None)"

definition ex_deps :: deps where
  "ex_deps =
     \<lparr>av_SquawkIsSPC = (\<lambda>sq. sq \<in> {3904, 3968, 4032, 4095}),
      av_ParseSquawk = ex_ParseSquawk,
      av_TypeWithoutSuffix = (\<lambda>fp. takeWhile (\<lambda>c. c \<noteq> CHR ''/'') (fp_AircraftType fp)),
      av_AircraftPerformance = (\<lambda>t. t \<in> {''B738'', ''A320''}),
      av_TRACON_ARTCC = (\<lambda>t. if t = ''N90'' then ''ZNY'' else []),
      av_Fix = (\<lambda>fixes alt. case fixes of [] \<Rightarrow> Inl ErrNoMatchingFix | f # rest \<Rightarrow> Inr f),
      av_FixForRouteAndAltitude = (\<lambda>ad route alt. ([], False)),
      av_AdaptationFixForAltitude =
        (\<lambda>ad fix alt. case map_of (ad_CoordinationFixes ad) fix of
                         Some (f # rest) \<Rightarrow> (f, True)
                       | _ \<Rightarrow> (\<lparr>af_FromFacility = [], af_ToFacility = []\<rparr>, False)),
      util_IsAllNumbers = list_all (\<lambda>c. c \<in> set ''0123456789''),
      util_IsAllLetters = list_all unicode_IsLetter,
      time_Format1504Z = (\<lambda>t. ''1504Z'')\<rparr>"

definition ex_store :: PlanStore where
  "ex_store = \<lparr>ps_cells = (\<lambda>a. zero_STARSFlightPlan), ps_next = 0\<rparr>"

definition ex_stars :: STARSComputer where
  "ex_stars =
     \<lparr>sc_Identifier = ''N90'', sc_ContainedPlans = Map.empty, sc_ReceivedMessages = [],
      sc_TrackInformation = Map.empty, sc_AvailableSquawks = getBeaconBankSquawks 10\<rparr>"

definition ex_adaptation :: ERAMAdaptation where
  "ex_adaptation =
     \<lparr>ad_CoordinationFixes =
        [(''COATE'', [\<lparr>af_FromFacility = ''ZNY'', af_ToFacility = ''N90''\<rparr>]),
         (''LENDY'', [\<lparr>af_FromFacility = ''N90'', af_ToFacility = ''ZNY''\<rparr>])]\<rparr>"

definition ex_eram :: ERAMComputer where
  "ex_eram =
     \<lparr>ec_STARSComputers = [''N90'' \<mapsto> ex_stars],
      ec_ERAMInboxes = [''ZBW'' \<mapsto> []],
      ec_ReceivedMessages = [],
      ec_FlightPlans = Map.empty,
      ec_TrackInformation = Map.empty,
      ec_AvailableSquawks = {},
      ec_Identifier = ''ZNY'',
      ec_Adaptation = ex_adaptation\<rparr>"

text \<open>A plan for AAL12 under beacon code \<open>0o1234 = 668\<close>, and messages about it.\<close>

definition ex_plan :: STARSFlightPlan where
  "ex_plan =
     zero_STARSFlightPlan
       \<lparr>fp_Callsign := ''AAL12'', fp_AssignedSquawk := 668, fp_Route := ''COATE Q436 LENDY'',
        sfp_CoordinationFix := ''COATE'',
        sfp_CoordinationTime := \<lparr>ct_Time = 7200000000000, ct_Type = ''A''\<rparr>,
        sfp_Altitude := ''110''\<rparr>"

definition ex_msg :: "int \<Rightarrow> FlightPlanMessage" where
  "ex_msg mt =
     zero_FlightPlanMessage
       \<lparr>ti_Identifier := ''AAL12'', ti_TrackOwner := ''2K'', ti_HandoffController := ''1A'',
        fpm_SourceID := ''N901504Z'', fpm_MessageType := mt, fpm_FlightID := ''123AAL12'',
        fpm_BCN := 668, fpm_CoordinationFix := ''COATE'', fpm_Altitude := ''110'',
        fpm_Route := ''COATE Q436 LENDY''\<rparr>"

text \<open>The same world with the plan of AAL12 at address 0, filed under its beacon code.\<close>

definition ex_store_plan :: PlanStore where
  "ex_store_plan = \<lparr>ps_cells = (\<lambda>a. zero_STARSFlightPlan)(0 := ex_plan), ps_next = 1\<rparr>"

definition ex_eram_plan :: ERAMComputer where
  "ex_eram_plan = ex_eram\<lparr>ec_FlightPlans := [668 \<mapsto> 0]\<rparr>"


section \<open>Unfolding lemmas\<close>

lemmas MessageType_defs = Plan_def Amendment_def Cancellation_def RequestFlightPlan_def
  DepartureDM_def BeaconTerminate_def InitiateTransfer_def AcceptRecallTransfer_def

lemmas ex_defs = ex_deps_def ex_store_def ex_stars_def ex_adaptation_def ex_eram_def ex_plan_def
  ex_store_plan_def ex_eram_plan_def ex_msg_def zero_FlightPlanMessage_def zero_TrackInformation_def zero_STARSFlightPlan_def
  zero_CoordinationTime_def zero_AircraftDataMessage_def

section \<open>Conversion round trip\<close>

text \<open>
  Claim C4. For every flight plan message \<open>m\<close>, converting \<open>m\<close> to a flight plan with
  \<^verbatim>\<open>FlightPlanMessage.FlightPlan()\<close> and converting the result back with
  \<^verbatim>\<open>STARSFlightPlan.Message()\<close> gives a message whose squawk (BCN), route and altitude fields
  equal those of \<open>m\<close>.
\<close>

theorem Message_FlightPlan_roundtrip:
  "fpm_BCN (Message E (FlightPlan_of m)) = fpm_BCN m \<and>
   fpm_Route (Message E (FlightPlan_of m)) = fpm_Route m \<and>
   fpm_Altitude (Message E (FlightPlan_of m)) = fpm_Altitude m"
  by (simp add: Message_def FlightPlan_of_def Let_def)

section \<open>Accept and recall at a STARS computer\<close>

text \<open>
  Claim C2. For every \<^verbatim>\<open>AcceptRecallTransfer\<close> message that a STARS computer sorts: if it
  has no track information for the message's identifier, nothing changes (store, computer
  and event stream are as before); if it has track information whose owner equals the
  message's track owner, the entry is deleted (recall); if the owners differ, the entry's
  owner becomes the message's owner and its handoff controller becomes empty (accept).
\<close>

theorem STARS_AcceptRecallTransfer:
  assumes "fpm_MessageType msg = AcceptRecallTransfer"
  shows "(sc_TrackInformation stars (ti_Identifier msg) = None \<longrightarrow>
            STARS_sort_message msg (h, stars, e) = (h, stars, e)) \<and>
         (\<forall>info. sc_TrackInformation stars (ti_Identifier msg) = Some info \<and>
                 ti_TrackOwner msg = ti_TrackOwner info \<longrightarrow>
            STARS_sort_message msg (h, stars, e) =
              (h, stars\<lparr>sc_TrackInformation :=
                          (sc_TrackInformation stars)(ti_Identifier msg := None)\<rparr>, e)) \<and>
         (\<forall>info. sc_TrackInformation stars (ti_Identifier msg) = Some info \<and>
                 ti_TrackOwner msg \<noteq> ti_TrackOwner info \<longrightarrow>
            STARS_sort_message msg (h, stars, e) =
              (h, stars\<lparr>sc_TrackInformation :=
                          (sc_TrackInformation stars)(ti_Identifier msg \<mapsto>
                             info\<lparr>ti_TrackOwner := ti_TrackOwner msg,
                                  ti_HandoffController := []\<rparr>)\<rparr>, e))"
  using assms by (simp add: STARS_sort_message_def MessageType_defs)

theorem STARS_AcceptRecallTransfer_witness:
  "STARS_sort_message (ex_msg AcceptRecallTransfer) (ex_store, ex_stars, []) =
     (ex_store, ex_stars, []) \<and>
   sc_TrackInformation (fst (snd (STARS_sort_message (ex_msg AcceptRecallTransfer)
      (ex_store,
       ex_stars\<lparr>sc_TrackInformation :=
                  [''AAL12'' \<mapsto> zero_TrackInformation\<lparr>ti_TrackOwner := ''2K''\<rparr>]\<rparr>, []))))
     ''AAL12'' = None \<and>
   sc_TrackInformation (fst (snd (STARS_sort_message (ex_msg AcceptRecallTransfer)
      (ex_store,
       ex_stars\<lparr>sc_TrackInformation :=
                  [''AAL12'' \<mapsto> zero_TrackInformation
                     \<lparr>ti_TrackOwner := ''4P'', ti_HandoffController := ''2K''\<rparr>]\<rparr>, []))))
     ''AAL12'' = Some (zero_TrackInformation\<lparr>ti_TrackOwner := ''2K''\<rparr>)"
  using
    STARS_AcceptRecallTransfer [of "ex_msg AcceptRecallTransfer" ex_stars ex_store "[]"]
    STARS_AcceptRecallTransfer [of "ex_msg AcceptRecallTransfer"
      "ex_stars\<lparr>sc_TrackInformation :=
                  [''AAL12'' \<mapsto> zero_TrackInformation\<lparr>ti_TrackOwner := ''2K''\<rparr>]\<rparr>" ex_store "[]"]
    STARS_AcceptRecallTransfer [of "ex_msg AcceptRecallTransfer"
      "ex_stars\<lparr>sc_TrackInformation :=
                  [''AAL12'' \<mapsto> zero_TrackInformation
                     \<lparr>ti_TrackOwner := ''4P'', ti_HandoffController := ''2K''\<rparr>]\<rparr>" ex_store "[]"]
  by (simp add: ex_defs)

section \<open>Transfer initiation at a STARS computer\<close>

text \<open>
  Claim C3. For every \<^verbatim>\<open>InitiateTransfer\<close> message sorted by a STARS computer that holds a
  flight plan under the message's squawk, the computer creates track information from that
  plan (owner and handoff controller from the message), removes the plan from its table of
  contained plans and posts a transfer-accepted event; when it holds neither a plan under
  the squawk nor track information for the identifier, it posts a transfer-rejected event
  (and changes nothing else).
\<close>

theorem STARS_InitiateTransfer:
  assumes "fpm_MessageType msg = InitiateTransfer"
  shows "(\<forall>fp. sc_ContainedPlans stars (fpm_BCN msg) = Some fp \<longrightarrow>
            STARS_sort_message msg (h, stars, e) =
              (h,
               stars\<lparr>sc_TrackInformation := (sc_TrackInformation stars)(ti_Identifier msg \<mapsto>
                        zero_TrackInformation
                          \<lparr>ti_TrackOwner := ti_TrackOwner msg,
                           ti_HandoffController := ti_HandoffController msg,
                           ti_FlightPlan := Some fp\<rparr>),
                      sc_ContainedPlans := (sc_ContainedPlans stars)(fpm_BCN msg := None)\<rparr>,
               e @ [\<lparr>ev_Type = TransferAcceptedEvent, ev_Callsign = ti_Identifier msg,
                      ev_ToController = ti_TrackOwner msg\<rparr>])) \<and>
         (sc_ContainedPlans stars (fpm_BCN msg) = None \<and>
          sc_TrackInformation stars (ti_Identifier msg) = None \<longrightarrow>
            STARS_sort_message msg (h, stars, e) =
              (h, stars,
               e @ [\<lparr>ev_Type = TransferRejectedEvent, ev_Callsign = ti_Identifier msg,
                      ev_ToController = ti_TrackOwner msg\<rparr>]))"
  using assms by (simp add: STARS_sort_message_def MessageType_defs)

theorem STARS_InitiateTransfer_witness:
  "snd (snd (STARS_sort_message (ex_msg InitiateTransfer)
      (ex_store, ex_stars\<lparr>sc_ContainedPlans := [668 \<mapsto> 0]\<rparr>, []))) =
     [\<lparr>ev_Type = TransferAcceptedEvent, ev_Callsign = ''AAL12'', ev_ToController = ''2K''\<rparr>] \<and>
   sc_ContainedPlans (fst (snd (STARS_sort_message (ex_msg InitiateTransfer)
      (ex_store, ex_stars\<lparr>sc_ContainedPlans := [668 \<mapsto> 0]\<rparr>, [])))) 668 = None \<and>
   sc_TrackInformation (fst (snd (STARS_sort_message (ex_msg InitiateTransfer)
      (ex_store, ex_stars\<lparr>sc_ContainedPlans := [668 \<mapsto> 0]\<rparr>, [])))) ''AAL12'' =
     Some (zero_TrackInformation
             \<lparr>ti_TrackOwner := ''2K'', ti_HandoffController := ''1A'', ti_FlightPlan := Some 0\<rparr>) \<and>
   STARS_sort_message (ex_msg InitiateTransfer) (ex_store, ex_stars, []) =
     (ex_store, ex_stars,
      [\<lparr>ev_Type = TransferRejectedEvent, ev_Callsign = ''AAL12'', ev_ToController = ''2K''\<rparr>])"
  using
    STARS_InitiateTransfer [of "ex_msg InitiateTransfer"
      "ex_stars\<lparr>sc_ContainedPlans := [668 \<mapsto> 0]\<rparr>" ex_store "[]"]
    STARS_InitiateTransfer [of "ex_msg InitiateTransfer" ex_stars ex_store "[]"]
  by (simp add: ex_defs)

section \<open>Looking up a flight plan at a STARS computer\<close>

text \<open>
  Claim C10. For every identifier that parses as a squawk code, \<^verbatim>\<open>GetFlightPlan\<close> consults
  only the table of contained plans under that squawk: it returns the plan stored there, or
  \<^verbatim>\<open>ErrNoMatchingFlight\<close> when there is none, whatever the callsigns of the contained plans
  (the result does not depend on the store or on the order of the callsign search). The
  callsign search is made only for identifiers that do not parse (\<open>GetFlightPlan_callsign\<close>).
\<close>

theorem GetFlightPlan_squawk_only:
  assumes "av_ParseSquawk E identifier = Some squawk"
  shows "(sc_ContainedPlans stars squawk = None \<longrightarrow>
            GetFlightPlan E order h stars identifier = Inl ErrNoMatchingFlight) \<and>
         (\<forall>fp. sc_ContainedPlans stars squawk = Some fp \<longrightarrow>
            GetFlightPlan E order h stars identifier = Inr fp) \<and>
         GetFlightPlan E order h stars identifier = GetFlightPlan E order' h' stars identifier"
  using assms by (simp add: GetFlightPlan_def)

lemma GetFlightPlan_callsign:
  assumes "av_ParseSquawk E identifier = None"
  shows "GetFlightPlan E order h stars identifier =
           (case find (\<lambda>plan. fp_Callsign (ps_cells h plan) = identifier)
                   (List.map_filter (sc_ContainedPlans stars) order) of
              Some plan \<Rightarrow> Inr plan
            | None \<Rightarrow> Inl ErrNoMatchingFlight)"
  using assms by (simp add: GetFlightPlan_def)

text \<open>
  The witness: the only contained plan has callsign \<open>1234\<close> and is stored under beacon code
  \<open>0o4321 = 2257\<close>; asking for \<open>1234\<close> finds nothing, asking for \<open>4321\<close> finds the plan.
\<close>

theorem GetFlightPlan_squawk_only_witness:
  "fp_Callsign (ps_cells (ex_store\<lparr>ps_cells := (ps_cells ex_store)(0 := ex_plan\<lparr>fp_Callsign := ''1234''\<rparr>)\<rparr>) 0) = ''1234'' \<and>
   GetFlightPlan ex_deps [2257]
     (ex_store\<lparr>ps_cells := (ps_cells ex_store)(0 := ex_plan\<lparr>fp_Callsign := ''1234''\<rparr>)\<rparr>)
     (ex_stars\<lparr>sc_ContainedPlans := [2257 \<mapsto> 0]\<rparr>) ''1234'' = Inl ErrNoMatchingFlight \<and>
   GetFlightPlan ex_deps [2257]
     (ex_store\<lparr>ps_cells := (ps_cells ex_store)(0 := ex_plan\<lparr>fp_Callsign := ''1234''\<rparr>)\<rparr>)
     (ex_stars\<lparr>sc_ContainedPlans := [2257 \<mapsto> 0]\<rparr>) ''4321'' = Inr 0"
  using
    GetFlightPlan_squawk_only [of ex_deps "''1234''" 668 "ex_stars\<lparr>sc_ContainedPlans := [2257 \<mapsto> 0]\<rparr>"
      "[2257]" "ex_store\<lparr>ps_cells := (ps_cells ex_store)(0 := ex_plan\<lparr>fp_Callsign := ''1234''\<rparr>)\<rparr>"]
    GetFlightPlan_squawk_only [of ex_deps "''4321''" 2257 "ex_stars\<lparr>sc_ContainedPlans := [2257 \<mapsto> 0]\<rparr>"
      "[2257]" "ex_store\<lparr>ps_cells := (ps_cells ex_store)(0 := ex_plan\<lparr>fp_Callsign := ''1234''\<rparr>)\<rparr>"]
  by (simp add: ex_defs ex_ParseSquawk_def octal_digit_def)

section \<open>Plan messages with a zero squawk\<close>

text \<open>
  Claim C6. For every \<^verbatim>\<open>Plan\<close> message carrying squawk code zero: an ERAM computer panics
  with "zero squawk" and its tables are as before the message (only the plan object that
  \<^verbatim>\<open>msg.FlightPlan()\<close> built was allocated); a STARS computer leaves its state unchanged.
  Neither adds or overwrites an entry of its flight plan table.
\<close>

theorem zero_squawk_Plan_rejected:
  assumes "fpm_MessageType msg = Plan" and "fpm_BCN msg = 0"
  shows "ERAM_sort_message E simTime msg (h, eram) =
           Panicked ZeroSquawk (snd (new_plan (FlightPlan_of msg) h), eram) \<and>
         STARS_sort_message msg (h, stars, e) = (h, stars, e)"
  using assms
  by (simp add: ERAM_sort_message_def STARS_sort_message_def new_plan_def FlightPlan_of_def Let_def)

theorem zero_squawk_Plan_rejected_witness:
  "ec_FlightPlans (snd (state_of (ERAM_sort_message ex_deps 0 ((ex_msg Plan)\<lparr>fpm_BCN := 0\<rparr>)
      (ex_store, ex_eram)))) = ec_FlightPlans ex_eram \<and>
   (case ERAM_sort_message ex_deps 0 ((ex_msg Plan)\<lparr>fpm_BCN := 0\<rparr>) (ex_store, ex_eram) of
      Done w \<Rightarrow> False | Panicked p w \<Rightarrow> p = ZeroSquawk) \<and>
   sc_ContainedPlans (fst (snd (STARS_sort_message ((ex_msg Plan)\<lparr>fpm_BCN := 0\<rparr>)
      (ex_store, ex_stars, [])))) = sc_ContainedPlans ex_stars"
  using zero_squawk_Plan_rejected [of "(ex_msg Plan)\<lparr>fpm_BCN := 0\<rparr>" ex_deps 0 ex_store ex_eram
    ex_stars "[]"]
  by (simp add: ex_msg_def MessageType_defs)

section \<open>The queue after a sort pass\<close>

text \<open>
  \<^verbatim>\<open>clear\<close> keeps the length of the queue: after \<^verbatim>\<open>SortReceivedMessages\<close> the queue of a
  STARS computer holds as many messages as before, all of them zero values.
\<close>

lemma STARS_sort_message_queue:
  "sc_ReceivedMessages (fst (snd (STARS_sort_message msg w))) = sc_ReceivedMessages (fst (snd w))"
  by (cases w) (simp add: STARS_sort_message_def new_plan_def split: option.splits)

lemma fold_STARS_sort_message_queue:
  "sc_ReceivedMessages (fst (snd (fold STARS_sort_message msgs w))) =
     sc_ReceivedMessages (fst (snd w))"
  by (induction msgs arbitrary: w) (simp_all add: STARS_sort_message_queue)

lemma SortReceivedMessages_queue:
  "sc_ReceivedMessages (fst (snd (SortReceivedMessages w))) =
     replicate (length (sc_ReceivedMessages (fst (snd w)))) zero_FlightPlanMessage"
proof -
  obtain h' stars' e' where f: "fold STARS_sort_message (sc_ReceivedMessages (fst (snd w))) w = (h', stars', e')"
    by (metis prod_cases3)
  have "sc_ReceivedMessages stars' = sc_ReceivedMessages (fst (snd w))"
    using fold_STARS_sort_message_queue [of "sc_ReceivedMessages (fst (snd w))" w] f by simp
  then show ?thesis
    by (simp add: SortReceivedMessages_def f clear_slice_def)
qed

text \<open>
  Claim C8 (the code departs from it). After the sort pass the queue is not empty: a STARS
  computer with one \<^verbatim>\<open>Cancellation\<close> message and an ERAM computer with one
  \<^verbatim>\<open>DepartureDM\<close> message are each left with a queue of one zero-valued message, a
  \<^verbatim>\<open>Plan\<close> message with squawk zero; the next pass of the ERAM computer over that queue
  panics with "zero squawk".
\<close>

theorem sort_pass_leaves_queue_nonempty:
  "sc_ReceivedMessages (fst (snd (SortReceivedMessages
      (ex_store, ex_stars\<lparr>sc_ReceivedMessages := [ex_msg Cancellation]\<rparr>, [])))) =
     [zero_FlightPlanMessage] \<and>
   SortMessages ex_deps 0 (ex_store, ex_eram\<lparr>ec_ReceivedMessages := [ex_msg DepartureDM]\<rparr>) =
     Done (ex_store, ex_eram\<lparr>ec_ReceivedMessages := [zero_FlightPlanMessage]\<rparr>) \<and>
   (case SortMessages ex_deps 0 (ex_store, ex_eram\<lparr>ec_ReceivedMessages := [zero_FlightPlanMessage]\<rparr>) of
      Done w \<Rightarrow> False
    | Panicked p w \<Rightarrow> p = ZeroSquawk)"
  by (simp add: SortReceivedMessages_def SortMessages_def STARS_sort_message_def
      ERAM_sort_message_def clear_slice_def ex_msg_def MessageType_defs new_plan_def
      FlightPlan_of_def zero_FlightPlanMessage_def Let_def)

section \<open>The abbreviated flight plan example\<close>

lemmas parse_defs = ParseAbbreviatedFPFields_def parse_field_def parse_scratchpad1_def
  parse_scratchpad2_def parse_aircraft_type_def parse_altitude_rules_def
  zero_AbbreviatedFPFields_def unicode_IsLetter_def strings_HasPrefix_def
  STARSTriangleCharacter_def badScratchpads_def

text \<open>
  Claim C9 as stated fails: on the tokens \<open>UAL123 1234 P35 B738 .V\<close>
  the parser does not return type of flight "departure" with airport "35" and VFR rules.
  The token \<open>P35\<close> has three bytes, and the type-of-flight test only looks at fields of
  one or two bytes.
\<close>

theorem ParseAbbreviatedFPFields_example_counterexample:
  "\<not> (case ParseAbbreviatedFPFields ex_deps \<lparr>fa_AllowLongScratchpad = (False, False)\<rparr>
            [''UAL123'', ''1234'', ''P35'', ''B738'', ''.V''] of
        Inl p \<Rightarrow> False
      | Inr output \<Rightarrow>
          ab_ACID output = ''UAL123'' \<and> ab_BCN output = 668 \<and>
          ab_TypeOfFlight output = ''departure'' \<and> ab_DepartureAirport output = ''35'' \<and>
          ab_AircraftType output = ''B738'' \<and> ab_Rules output = VFR \<and> ab_Error output = None)"
  by (simp add: parse_defs ex_deps_def ex_ParseSquawk_def octal_digit_def)

text \<open>
  Claim C9, as amended. On these tokens, when \<^verbatim>\<open>av.ParseSquawk\<close> reads \<open>1234\<close> as
  \<open>0o1234 = 668\<close> and rejects the three other tokens, \<open>B738\<close> is in the aircraft
  performance database and the facility does not allow long primary scratchpads, the parser
  returns ACID \<open>UAL123\<close>, beacon code \<open>0o1234\<close>, an empty type of flight and an empty
  departure airport, aircraft type \<open>B738\<close> and no error. What it records for \<open>.V\<close> is
  not part of the statement.
\<close>

theorem ParseAbbreviatedFPFields_example:
  assumes "av_ParseSquawk E ''1234'' = Some 668"
    and "av_ParseSquawk E ''P35'' = None"
    and "av_ParseSquawk E ''B738'' = None"
    and "av_ParseSquawk E ''.V'' = None"
    and "av_AircraftPerformance E ''B738''"
    and "\<not> fst (fa_AllowLongScratchpad facilityAdaptation)"
  shows "\<exists>output. ParseAbbreviatedFPFields E facilityAdaptation
                    [''UAL123'', ''1234'', ''P35'', ''B738'', ''.V''] = Inr output \<and>
           ab_ACID output = ''UAL123'' \<and> ab_BCN output = 668 \<and>
           ab_TypeOfFlight output = [] \<and> ab_DepartureAirport output = [] \<and>
           ab_AircraftType output = ''B738'' \<and> ab_Error output = None"
  using assms by (simp add: parse_defs)

theorem ParseAbbreviatedFPFields_example_witness:
  "ParseAbbreviatedFPFields ex_deps \<lparr>fa_AllowLongScratchpad = (False, True)\<rparr>
     [''UAL123'', ''1234'', ''P35'', ''B738'', ''.V''] =
   Inr (zero_AbbreviatedFPFields
          \<lparr>ab_ACID := ''UAL123'', ab_BCN := 668, ab_ControllingPosition := ''.V'',
           ab_AircraftType := ''B738''\<rparr>)"
  using ParseAbbreviatedFPFields_example [of ex_deps "\<lparr>fa_AllowLongScratchpad = (False, True)\<rparr>"]
  by (simp add: parse_defs ex_deps_def ex_ParseSquawk_def octal_digit_def)

section \<open>Squawk allocation\<close>














section \<open>Transfer initiation at an ERAM computer\<close>

text \<open>
  What the two sending functions leave alone, and what the loop over the coordination
  fixes keeps: the pool, the flight plan table and the store; the owner and handoff
  controller of the track information for the message's identifier; and that the loop runs
  to its end when that track information has a plan and a plan is filed under the squawk.
\<close>

lemma ToSTARSFacility_frame:
  "ec_TrackInformation (snd (ToSTARSFacility f m eram)) = ec_TrackInformation eram \<and>
   ec_FlightPlans (snd (ToSTARSFacility f m eram)) = ec_FlightPlans eram \<and>
   ec_AvailableSquawks (snd (ToSTARSFacility f m eram)) = ec_AvailableSquawks eram \<and>
   ec_Identifier (snd (ToSTARSFacility f m eram)) = ec_Identifier eram \<and>
   ec_Adaptation (snd (ToSTARSFacility f m eram)) = ec_Adaptation eram \<and>
   ec_ReceivedMessages (snd (ToSTARSFacility f m eram)) = ec_ReceivedMessages eram"
  by (simp add: ToSTARSFacility_def split: option.splits)

lemma SendMessageToERAM_frame:
  "ec_TrackInformation (snd (SendMessageToERAM f m eram)) = ec_TrackInformation eram \<and>
   ec_FlightPlans (snd (SendMessageToERAM f m eram)) = ec_FlightPlans eram \<and>
   ec_AvailableSquawks (snd (SendMessageToERAM f m eram)) = ec_AvailableSquawks eram \<and>
   ec_Identifier (snd (SendMessageToERAM f m eram)) = ec_Identifier eram \<and>
   ec_Adaptation (snd (SendMessageToERAM f m eram)) = ec_Adaptation eram \<and>
   ec_ReceivedMessages (snd (SendMessageToERAM f m eram)) = ec_ReceivedMessages eram"
  by (simp add: SendMessageToERAM_def split: option.splits)

lemma InitiateTransfer_fixes_frame:
  "ec_AvailableSquawks (snd (state_of (InitiateTransfer_fixes E simTime cfs msg w))) =
     ec_AvailableSquawks (snd w) \<and>
   ec_FlightPlans (snd (state_of (InitiateTransfer_fixes E simTime cfs msg w))) =
     ec_FlightPlans (snd w) \<and>
   fst (state_of (InitiateTransfer_fixes E simTime cfs msg w)) = fst w"
proof (induction cfs arbitrary: msg w)
  case Nil
  show ?case by simp
next
  case (Cons cf cfs)
  obtain name fx where cf: "cf = (name, fx)" by (cases cf)
  show ?case
    unfolding cf
    by (simp add: Cons.IH Let_def ToSTARSFacility_frame SendMessageToERAM_frame
        split: option.splits sum.splits)
qed

lemma InitiateTransfer_fixes_track:
  assumes "ec_TrackInformation (snd w) (ti_Identifier msg) = Some info"
    and "ti_TrackOwner info = ti_TrackOwner msg"
    and "ti_HandoffController info = ti_HandoffController msg"
  shows "\<exists>info'.
           ec_TrackInformation (snd (state_of (InitiateTransfer_fixes E simTime cfs msg w)))
             (ti_Identifier msg) = Some info' \<and>
           ti_TrackOwner info' = ti_TrackOwner msg \<and>
           ti_HandoffController info' = ti_HandoffController msg \<and>
           (ti_FlightPlan info = ec_FlightPlans (snd w) (fpm_BCN msg) \<longrightarrow>
              ti_FlightPlan info' = ec_FlightPlans (snd w) (fpm_BCN msg))"
  using assms
proof (induction cfs arbitrary: msg w info)
  case Nil
  then show ?case by simp
next
  case (Cons cf cfs)
  obtain name fx where cf: "cf = (name, fx)" by (cases cf)
  note pr = Cons.prems
  show ?case
  proof (cases "ti_FlightPlan info")
    case None
    with pr show ?thesis by (simp add: cf)
  next
    case (Some fp)
    show ?thesis
    proof (cases "av_Fix E fx (sfp_Altitude (ps_cells (fst w) fp))")
      case (Inl err)
      with pr Some Cons.IH [OF pr] show ?thesis by (simp add: cf)
    next
      case (Inr afx)
      let ?msg' = "msg\<lparr>fpm_SourceID := formatSourceID E (ec_Identifier (snd w)) simTime\<rparr>"
      consider (forward) "name = fpm_CoordinationFix msg" "af_ToFacility afx \<noteq> ec_Identifier (snd w)"
        | (stay) "name = fpm_CoordinationFix msg" "af_ToFacility afx = ec_Identifier (snd w)"
        | (other) "name \<noteq> fpm_CoordinationFix msg"
        by blast
      then show ?thesis
      proof cases
        case forward
        have a: "ec_TrackInformation (snd (fst w, snd (SendMessageToERAM (af_ToFacility afx) ?msg' (snd w))))
                   (ti_Identifier ?msg') = Some info"
          and b: "ec_TrackInformation (snd (fst w, snd (ToSTARSFacility (af_ToFacility afx) ?msg' (snd w))))
                   (ti_Identifier ?msg') = Some info"
          using pr by (simp_all add: SendMessageToERAM_frame ToSTARSFacility_frame)
        have c: "ti_TrackOwner info = ti_TrackOwner ?msg'" "ti_HandoffController info = ti_HandoffController ?msg'"
          using pr by simp_all
        from Cons.IH [OF a c] Cons.IH [OF b c] pr Some Inr forward
        show ?thesis
          by (simp add: cf Let_def SendMessageToERAM_frame ToSTARSFacility_frame)
      next
        case stay
        let ?info = "zero_TrackInformation
                       \<lparr>ti_TrackOwner := ti_TrackOwner msg,
                        ti_HandoffController := ti_HandoffController msg,
                        ti_FlightPlan := ec_FlightPlans (snd w) (fpm_BCN msg)\<rparr>"
        let ?w = "(fst w, (snd w)\<lparr>ec_TrackInformation :=
                     (ec_TrackInformation (snd w))(ti_Identifier msg \<mapsto> ?info)\<rparr>)"
        have a: "ec_TrackInformation (snd ?w) (ti_Identifier msg) = Some ?info" by simp
        have c: "ti_TrackOwner ?info = ti_TrackOwner msg" "ti_HandoffController ?info = ti_HandoffController msg"
          by simp_all
        from Cons.IH [OF a c] obtain info' where
          "ec_TrackInformation (snd (state_of (InitiateTransfer_fixes E simTime cfs msg ?w)))
             (ti_Identifier msg) = Some info'"
          "ti_TrackOwner info' = ti_TrackOwner msg"
          "ti_HandoffController info' = ti_HandoffController msg"
          "ti_FlightPlan info' = ec_FlightPlans (snd w) (fpm_BCN msg)"
          by auto
        with pr Some Inr stay show ?thesis by (simp add: cf)
      next
        case other
        with pr Some Inr Cons.IH [OF pr] show ?thesis by (simp add: cf)
      qed
    qed
  qed
qed


lemma InitiateTransfer_fixes_done:
  assumes "ec_TrackInformation (snd w) (ti_Identifier msg) = Some info"
    and "ti_FlightPlan info \<noteq> None"
    and "ec_FlightPlans (snd w) (fpm_BCN msg) \<noteq> None"
  shows "\<exists>w'. InitiateTransfer_fixes E simTime cfs msg w = Done w'"
  using assms
proof (induction cfs arbitrary: msg w info)
  case Nil
  then show ?case by simp
next
  case (Cons cf cfs)
  obtain name fx where cf: "cf = (name, fx)" by (cases cf)
  note pr = Cons.prems
  from pr(2) obtain fp where fp: "ti_FlightPlan info = Some fp" by auto
  show ?case
  proof (cases "av_Fix E fx (sfp_Altitude (ps_cells (fst w) fp))")
    case (Inl err)
    with pr fp Cons.IH [OF pr] show ?thesis by (simp add: cf)
  next
    case (Inr afx)
    let ?msg' = "msg\<lparr>fpm_SourceID := formatSourceID E (ec_Identifier (snd w)) simTime\<rparr>"
    consider (forward) "name = fpm_CoordinationFix msg" "af_ToFacility afx \<noteq> ec_Identifier (snd w)"
      | (stay) "name = fpm_CoordinationFix msg" "af_ToFacility afx = ec_Identifier (snd w)"
      | (other) "name \<noteq> fpm_CoordinationFix msg"
      by blast
    then show ?thesis
    proof cases
      case forward
      have a: "ec_TrackInformation (snd (fst w, snd (SendMessageToERAM (af_ToFacility afx) ?msg' (snd w))))
                 (ti_Identifier ?msg') = Some info"
        and b: "ec_TrackInformation (snd (fst w, snd (ToSTARSFacility (af_ToFacility afx) ?msg' (snd w))))
                 (ti_Identifier ?msg') = Some info"
        using pr by (simp_all add: SendMessageToERAM_frame ToSTARSFacility_frame)
      have c: "ec_FlightPlans (snd (fst w, snd (SendMessageToERAM (af_ToFacility afx) ?msg' (snd w))))
                 (fpm_BCN ?msg') \<noteq> None"
        and d: "ec_FlightPlans (snd (fst w, snd (ToSTARSFacility (af_ToFacility afx) ?msg' (snd w))))
                 (fpm_BCN ?msg') \<noteq> None"
        using pr by (simp_all add: SendMessageToERAM_frame ToSTARSFacility_frame)
      from Cons.IH [OF a pr(2) c] Cons.IH [OF b pr(2) d] pr fp Inr forward
      show ?thesis by (simp add: cf Let_def)
    next
      case stay
      let ?info = "zero_TrackInformation
                     \<lparr>ti_TrackOwner := ti_TrackOwner msg,
                      ti_HandoffController := ti_HandoffController msg,
                      ti_FlightPlan := ec_FlightPlans (snd w) (fpm_BCN msg)\<rparr>"
      let ?w = "(fst w, (snd w)\<lparr>ec_TrackInformation :=
                   (ec_TrackInformation (snd w))(ti_Identifier msg \<mapsto> ?info)\<rparr>)"
      have a: "ec_TrackInformation (snd ?w) (ti_Identifier msg) = Some ?info" by simp
      have b: "ti_FlightPlan ?info \<noteq> None" using pr by simp
      have c: "ec_FlightPlans (snd ?w) (fpm_BCN msg) \<noteq> None" using pr by simp
      from Cons.IH [OF a b c] pr fp Inr stay show ?thesis by (simp add: cf)
    next
      case other
      with pr fp Inr Cons.IH [OF pr] show ?thesis by (simp add: cf)
    qed
  qed
qed

text \<open>
  Claim C7 as stated fails in its last part: the handler does not remove the message's
  squawk from the pool of available squawks, it puts it in
  (\<^verbatim>\<open>comp.AvailableSquawks[msg.BCN] = nil\<close> makes the code a key of the map). Here the pool
  is empty before the message and holds the message's squawk after it.
\<close>

theorem ERAM_InitiateTransfer_counterexample:
  "fpm_BCN (ex_msg InitiateTransfer) \<notin> ec_AvailableSquawks ex_eram_plan \<and>
   fpm_BCN (ex_msg InitiateTransfer) \<in>
     ec_AvailableSquawks (snd (state_of
       (ERAM_sort_message ex_deps 0 (ex_msg InitiateTransfer) (ex_store_plan, ex_eram_plan))))"
  by (simp add: ERAM_sort_message_def MessageType_defs ex_defs Let_def formatSourceID_def
      ToSTARSFacility_def SendMessageToERAM_def)

text \<open>
  Claim C7, as amended. For every \<^verbatim>\<open>InitiateTransfer\<close> message sorted by an ERAM computer,
  in the state the handler leaves (or in which it panics): track information exists for the
  message's identifier, with the owner and the handoff controller of the message; if there
  was none before, its flight plan is the one filed under the message's squawk; and the pool
  of available squawks is the old pool with the message's squawk added. The handler runs to
  its end whenever there was no track information and a plan is filed under the squawk.
\<close>

theorem ERAM_InitiateTransfer:
  assumes "fpm_MessageType msg = InitiateTransfer"
  shows "(\<exists>info'.
            ec_TrackInformation (snd (state_of (ERAM_sort_message E simTime msg (h, eram))))
              (ti_Identifier msg) = Some info' \<and>
            ti_TrackOwner info' = ti_TrackOwner msg \<and>
            ti_HandoffController info' = ti_HandoffController msg \<and>
            (ec_TrackInformation eram (ti_Identifier msg) = None \<longrightarrow>
               ti_FlightPlan info' = ec_FlightPlans eram (fpm_BCN msg))) \<and>
         ec_AvailableSquawks (snd (state_of (ERAM_sort_message E simTime msg (h, eram)))) =
           insert (fpm_BCN msg) (ec_AvailableSquawks eram) \<and>
         (ec_TrackInformation eram (ti_Identifier msg) = None \<and>
          ec_FlightPlans eram (fpm_BCN msg) \<noteq> None \<longrightarrow>
            (\<exists>w'. ERAM_sort_message E simTime msg (h, eram) = Done w'))"
proof -
  let ?info0 = "case ec_TrackInformation eram (ti_Identifier msg) of
                  None \<Rightarrow> zero_TrackInformation\<lparr>ti_FlightPlan := ec_FlightPlans eram (fpm_BCN msg)\<rparr>
                | Some info \<Rightarrow> info"
  let ?info1 = "?info0\<lparr>ti_TrackOwner := ti_TrackOwner msg,
                         ti_HandoffController := ti_HandoffController msg\<rparr>"
  let ?eram1 = "eram\<lparr>ec_TrackInformation := (ec_TrackInformation eram)(ti_Identifier msg \<mapsto> ?info1),
                      ec_AvailableSquawks := insert (fpm_BCN msg) (ec_AvailableSquawks eram)\<rparr>"
  let ?r = "InitiateTransfer_fixes E simTime (ad_CoordinationFixes (ec_Adaptation eram)) msg (h, ?eram1)"
  have run: "ERAM_sort_message E simTime msg (h, eram) = ?r"
    using assms by (simp add: ERAM_sort_message_def MessageType_defs Let_def)
  have a: "ec_TrackInformation (snd (h, ?eram1)) (ti_Identifier msg) = Some ?info1" by simp
  have b: "ti_TrackOwner ?info1 = ti_TrackOwner msg" "ti_HandoffController ?info1 = ti_HandoffController msg"
    by simp_all
  from InitiateTransfer_fixes_track [OF a b, of E simTime "ad_CoordinationFixes (ec_Adaptation eram)"]
  obtain info' where i:
    "ec_TrackInformation (snd (state_of ?r)) (ti_Identifier msg) = Some info'"
    "ti_TrackOwner info' = ti_TrackOwner msg"
    "ti_HandoffController info' = ti_HandoffController msg"
    "ti_FlightPlan ?info1 = ec_FlightPlans eram (fpm_BCN msg) \<longrightarrow>
       ti_FlightPlan info' = ec_FlightPlans eram (fpm_BCN msg)"
    by auto
  have track: "\<exists>info'.
            ec_TrackInformation (snd (state_of (ERAM_sort_message E simTime msg (h, eram))))
              (ti_Identifier msg) = Some info' \<and>
            ti_TrackOwner info' = ti_TrackOwner msg \<and>
            ti_HandoffController info' = ti_HandoffController msg \<and>
            (ec_TrackInformation eram (ti_Identifier msg) = None \<longrightarrow>
               ti_FlightPlan info' = ec_FlightPlans eram (fpm_BCN msg))"
    unfolding run using i by (intro exI [of _ info']) simp
  have pool: "ec_AvailableSquawks (snd (state_of (ERAM_sort_message E simTime msg (h, eram)))) =
           insert (fpm_BCN msg) (ec_AvailableSquawks eram)"
    unfolding run using InitiateTransfer_fixes_frame [of E simTime _ msg "(h, ?eram1)"] by simp
  have completes: "ec_TrackInformation eram (ti_Identifier msg) = None \<and>
          ec_FlightPlans eram (fpm_BCN msg) \<noteq> None \<longrightarrow>
            (\<exists>w'. ERAM_sort_message E simTime msg (h, eram) = Done w')"
  proof
    assume seeded: "ec_TrackInformation eram (ti_Identifier msg) = None \<and>
               ec_FlightPlans eram (fpm_BCN msg) \<noteq> None"
    then have c: "ti_FlightPlan ?info1 \<noteq> None" "ec_FlightPlans (snd (h, ?eram1)) (fpm_BCN msg) \<noteq> None"
      by simp_all
    from InitiateTransfer_fixes_done [OF a c] show "\<exists>w'. ERAM_sort_message E simTime msg (h, eram) = Done w'"
      unfolding run .
  qed
  from track pool completes show ?thesis by blast
qed

theorem ERAM_InitiateTransfer_witness:
  "ec_TrackInformation (snd (state_of
       (ERAM_sort_message ex_deps 0 (ex_msg InitiateTransfer) (ex_store_plan, ex_eram_plan))))
     ''AAL12'' =
     Some (zero_TrackInformation
             \<lparr>ti_TrackOwner := ''2K'', ti_HandoffController := ''1A'', ti_FlightPlan := Some 0\<rparr>) \<and>
   ec_AvailableSquawks (snd (state_of
       (ERAM_sort_message ex_deps 0 (ex_msg InitiateTransfer) (ex_store_plan, ex_eram_plan)))) = {668} \<and>
   (case ERAM_sort_message ex_deps 0 (ex_msg InitiateTransfer) (ex_store_plan, ex_eram_plan) of
      Done w \<Rightarrow> True | Panicked p w \<Rightarrow> False)"
  using ERAM_InitiateTransfer [of "ex_msg InitiateTransfer" ex_deps 0 ex_store_plan ex_eram_plan]
  by (simp add: ERAM_sort_message_def MessageType_defs ex_defs Let_def formatSourceID_def
      ToSTARSFacility_def SendMessageToERAM_def)

section \<open>Timed transmission of flight plans\<close>



























end
